theory Spec2Isabelle
  imports Complex_Main "HOL-Library.Monad_Syntax"
begin

section \<open>Python values\<close>

text \<open>
  Mandates, proofs and transaction records are Python dictionaries built from JSON-like
  values. A dictionary is an association list read with \<open>map_of\<close> (the first binding of a
  key is the dictionary's value for it; a Python dictionary has each key once). A Python
  float is either a finite double, carried by its exact rational value, or one of the two
  infinities, or NaN.

  A Python call that raises is modelled by \<open>None\<close>; every \<open>except\<close> clause of the modelled
  code catches all exceptions of its \<open>try\<close> block and answers \<open>False\<close>, so the kind of the
  exception is never needed.
\<close>

datatype pyfloat = Fin rat | PInf | NInf | NaN

datatype json =
    JNull
  | JBool bool
  | JInt int
  | JFloat pyfloat
  | JStr string
  | JList "json list"
  | JObj "(string \<times> json) list"

type_synonym dict = "(string \<times> json) list"
type_synonym bytes = string

text \<open>\<open>bool(v)\<close>: the truth value Python's \<open>not v\<close> and \<open>if v\<close> use.\<close>

fun truthy :: "json \<Rightarrow> bool" where
  "truthy JNull = False"
| "truthy (JBool b) = b"
| "truthy (JInt i) = (i \<noteq> 0)"
| "truthy (JFloat f) = (f \<noteq> Fin 0)"
| "truthy (JStr s) = (s \<noteq> [])"
| "truthy (JList xs) = (xs \<noteq> [])"
| "truthy (JObj d) = (d \<noteq> [])"

text \<open>\<open>a == b\<close> on floats: NaN equals nothing, itself included.\<close>

definition float_eq :: "pyfloat \<Rightarrow> pyfloat \<Rightarrow> bool" where
  "float_eq a b = (a \<noteq> NaN \<and> a = b)"

fun num_eq :: "pyfloat \<Rightarrow> json \<Rightarrow> bool" where
  "num_eq a (JBool b) = float_eq a (Fin (if b then 1 else 0))"
| "num_eq a (JInt i) = float_eq a (Fin (of_int i))"
| "num_eq a (JFloat f) = float_eq a f"
| "num_eq a v = False"

text \<open>
  \<open>a == b\<close> on values: booleans, integers and floats compare by their numeric value
  (\<open>True == 1 == 1.0\<close>), lists elementwise, dictionaries as mappings whatever the order
  of their keys. Python compares the elements of a list or a dictionary by identity before
  \<open>==\<close>, so a container holding one and the same NaN object equals itself; values here
  have no identity, and such a container is unequal to itself.
\<close>

primrec py_eq :: "json \<Rightarrow> json \<Rightarrow> bool" where
  "py_eq JNull v = (v = JNull)"
| "py_eq (JBool b) v = num_eq (Fin (if b then 1 else 0)) v"
| "py_eq (JInt i) v = num_eq (Fin (of_int i)) v"
| "py_eq (JFloat f) v = num_eq f v"
| "py_eq (JStr s) v = (v = JStr s)"
| "py_eq (JList xs) v =
     (case v of JList ys \<Rightarrow> list_all2 (\<lambda>f y. f y) (map py_eq xs) ys | _ \<Rightarrow> False)"
| "py_eq (JObj d) v =
     (case v of
        JObj e \<Rightarrow>
          list_all (\<lambda>(k, f). case map_of e k of None \<Rightarrow> False | Some y \<Rightarrow> f y)
            (map (map_prod id py_eq) d) \<and>
          list_all (\<lambda>k. map_of d k \<noteq> None) (map fst e)
      | _ \<Rightarrow> False)"

text \<open>\<open>v.get(k, default)\<close>: only a dictionary has the method.\<close>

fun py_get :: "json \<Rightarrow> string \<Rightarrow> json \<Rightarrow> json option" where
  "py_get (JObj d) k dflt = Some (case map_of d k of None \<Rightarrow> dflt | Some v \<Rightarrow> v)"
| "py_get v k dflt = None"

text \<open>\<open>v[k]\<close> for a string key: KeyError when absent, TypeError on anything but a
  dictionary.\<close>

fun py_item :: "json \<Rightarrow> string \<Rightarrow> json option" where
  "py_item (JObj d) k = map_of d k"
| "py_item v k = None"

text \<open>\<open>v[-1]\<close>: the last element of a list, the last character of a string; IndexError
  when empty, KeyError or TypeError otherwise.\<close>

fun py_last :: "json \<Rightarrow> json option" where
  "py_last (JList xs) = (if xs = [] then None else Some (last xs))"
| "py_last (JStr s) = (if s = [] then None else Some (JStr [last s]))"
| "py_last v = None"

text \<open>\<open>len(v)\<close>.\<close>

fun py_len :: "json \<Rightarrow> nat option" where
  "py_len (JList xs) = Some (length xs)"
| "py_len (JStr s) = Some (length s)"
| "py_len (JObj d) = Some (length d)"
| "py_len v = None"

text \<open>\<open>d.pop(k, None)\<close> on a copy, and \<open>d[k] = v\<close>.\<close>

definition dict_pop :: "dict \<Rightarrow> string \<Rightarrow> dict" where
  "dict_pop d k = filter (\<lambda>kv. fst kv \<noteq> k) d"

fun dict_set :: "dict \<Rightarrow> string \<Rightarrow> json \<Rightarrow> dict" where
  "dict_set [] k v = [(k, v)]"
| "dict_set (kv # d) k v = (if fst kv = k then (k, v) # d else kv # dict_set d k v)"

section \<open>The libraries the program calls\<close>

text \<open>
  PyNaCl (Ed25519), base58, pyld (URDNA2015 canonicalisation with the local document
  loader) and the interpreter's own \<open>datetime.strptime\<close> and \<open>float\<close> are not part of
  the repository. They are parameters of the model; \<open>None\<close> is a raised exception.
  \<^item> \<open>jsonld_normalize body\<close>: \<open>jsonld.normalize(body, options).encode("utf-8")\<close>;
  \<^item> \<open>ed25519_sign sk msg\<close>: \<open>sk.sign(msg).signature\<close>;
  \<^item> \<open>ed25519_verify pk msg sig\<close>: \<open>VerifyKey(pk).verify(msg, sig)\<close> returns;
  \<^item> \<open>verify_key sk\<close>: \<open>bytes(sk.verify_key)\<close>;
  \<^item> \<open>strptime ts fmt\<close>: the parsed instant, on the scale on which the clock is read
    (instants are integers; only their order is used);
  \<^item> \<open>float_of_int\<close>, \<open>float_of_str\<close>: \<open>float(v)\<close> on an integer and on a string.
\<close>

record extern =
  jsonld_normalize :: "json \<Rightarrow> bytes option"
  ed25519_sign :: "bytes \<Rightarrow> bytes \<Rightarrow> bytes"
  ed25519_verify :: "bytes \<Rightarrow> bytes \<Rightarrow> bytes \<Rightarrow> bool"
  verify_key :: "bytes \<Rightarrow> bytes"
  b58encode :: "bytes \<Rightarrow> string"
  b58decode :: "string \<Rightarrow> bytes option"
  strptime :: "string \<Rightarrow> string \<Rightarrow> int option"
  float_of_int :: "int \<Rightarrow> pyfloat option"
  float_of_str :: "string \<Rightarrow> pyfloat option"

text \<open>\<open>float(v)\<close>: TypeError on \<open>None\<close>, a list or a dictionary.\<close>

fun py_float :: "'a extern_scheme \<Rightarrow> json \<Rightarrow> pyfloat option" where
  "py_float env (JBool b) = Some (Fin (if b then 1 else 0))"
| "py_float env (JInt i) = float_of_int env i"
| "py_float env (JFloat f) = Some f"
| "py_float env (JStr s) = float_of_str env s"
| "py_float env v = None"

section \<open>KeyManager\<close>

record key_manager =
  keys :: "string \<rightharpoonup> bytes"

definition key_generate_issuer :: "key_manager \<Rightarrow> string \<Rightarrow> bytes \<Rightarrow> key_manager" where
  \<comment> \<open>\<open>sk\<close> is the key \<open>SigningKey.generate()\<close> drew\<close>
  "key_generate_issuer km issuer_id sk = km\<lparr>keys := (keys km)(issuer_id \<mapsto> sk)\<rparr>"

definition key_get_signer :: "key_manager \<Rightarrow> string \<Rightarrow> bytes option" where
  "key_get_signer km issuer_id = keys km issuer_id"

definition key_get_pubkey_b58 :: "'a extern_scheme \<Rightarrow> key_manager \<Rightarrow> string \<Rightarrow> string option" where
  "key_get_pubkey_b58 env km issuer_id =
     (case keys km issuer_id of
        None \<Rightarrow> None
      | Some sk \<Rightarrow> Some (b58encode env (verify_key env sk)))"

text \<open>
  \<open>vm_uri.split("#", 1)\<close> unpacked into two names: without a \<open>#\<close> the unpacking raises,
  with one the first name is the text before the first \<open>#\<close>. Anything but a string has
  no \<open>split\<close>.
\<close>

fun key_resolve_verification_method ::
  "'a extern_scheme \<Rightarrow> key_manager \<Rightarrow> json \<Rightarrow> bytes option" where
  "key_resolve_verification_method env km (JStr vm_uri) =
     (if CHR ''#'' \<in> set vm_uri then
        do {
          pub_b58 \<leftarrow> key_get_pubkey_b58 env km (takeWhile (\<lambda>c. c \<noteq> CHR ''#'') vm_uri);
          b58decode env pub_b58
        }
      else None)"
| "key_resolve_verification_method env km v = None"

section \<open>JSONFactory and MandateSigner\<close>

definition json_canonicalize_vc_for_signing :: "'a extern_scheme \<Rightarrow> dict \<Rightarrow> bytes option" where
  "json_canonicalize_vc_for_signing env vc = jsonld_normalize env (JObj (dict_pop vc ''proof''))"

record mandate_signer =
  signer_key_manager :: key_manager
  issuer_id :: string

text \<open>\<open>created\<close> is the text \<open>time.strftime\<close> returned when the proof was made.\<close>

definition sign :: "'a extern_scheme \<Rightarrow> mandate_signer \<Rightarrow> string \<Rightarrow> dict \<Rightarrow> json option" where
  "sign env self created mandate_body =
     do {
       body_bytes \<leftarrow> json_canonicalize_vc_for_signing env mandate_body;
       sk \<leftarrow> key_get_signer (signer_key_manager self) (issuer_id self);
       Some (JObj
         [(''type'', JStr ''Ed25519Signature2020''),
          (''created'', JStr created),
          (''verificationMethod'', JStr (issuer_id self @ ''#keys-1'')),
          (''proofPurpose'', JStr ''assertionMethod''),
          (''proofValue'', JStr (b58encode env (ed25519_sign env sk body_bytes)))])
     }"

text \<open>\<open>base58.b58decode(v)\<close> on a value read from the proof.\<close>

fun proof_b58decode :: "'a extern_scheme \<Rightarrow> json \<Rightarrow> bytes option" where
  "proof_b58decode env (JStr s) = b58decode env s"
| "proof_b58decode env v = None"

text \<open>
  \<open>MandateSigner.verify\<close>. The canonicalisation stands before the \<open>try\<close>, so an exception
  of pyld leaves the function; everything in the \<open>try\<close> answers \<open>False\<close> when it raises.
\<close>

definition verify :: "'a extern_scheme \<Rightarrow> key_manager \<Rightarrow> json \<Rightarrow> bool option" where
  "verify env km mandate =
     (case mandate of
        JObj m \<Rightarrow>
          (let proof = (case map_of m ''proof'' of None \<Rightarrow> JNull | Some p \<Rightarrow> p) in
           if \<not> truthy proof then Some False
           else
             do {
               body_bytes \<leftarrow> json_canonicalize_vc_for_signing env (dict_pop m ''proof'');
               Some (case
                   do {
                     vm \<leftarrow> py_item proof ''verificationMethod'';
                     pubkey \<leftarrow> key_resolve_verification_method env km vm;
                     pv \<leftarrow> py_item proof ''proofValue'';
                     sig \<leftarrow> proof_b58decode env pv;
                     Some (ed25519_verify env pubkey body_bytes sig)
                   }
                 of None \<Rightarrow> False | Some ok \<Rightarrow> ok)
             })
      | _ \<Rightarrow> None)"

section \<open>MandateFactory\<close>

text \<open>
  \<open>mandate_wrap_vc\<close>: the fresh id (\<open>urn:uuid:\<close> and a random UUID), the issuance time and
  the default expiry are read from the system, so they are arguments here.
\<close>

definition mandate_wrap_vc ::
  "'a extern_scheme \<Rightarrow> mandate_signer \<Rightarrow> string \<Rightarrow> string \<Rightarrow> string \<Rightarrow> string \<Rightarrow>
   string \<Rightarrow> json \<Rightarrow> json \<Rightarrow> json option" where
  "mandate_wrap_vc env signer vc_id issuance default_expiry created mandate_type payload expiration =
     (let vc =
        [(''@context'', JList
            [JStr ''https://www.w3.org/2018/credentials/v1'',
             JStr ''https://ap2-protocol.org/contexts/mandates/v1'',
             JStr ''https://w3id.org/security/v2'']),
         (''id'', JStr vc_id),
         (''type'', JList [JStr ''VerifiableCredential'', JStr mandate_type]),
         (''issuer'', JStr (issuer_id signer)),
         (''issuanceDate'', JStr issuance),
         (''expirationDate'', if truthy expiration then expiration else JStr default_expiry),
         (''credentialSchema'', JObj
            [(''id'', JStr ''https://ap2-protocol.org/schemas/mandate-schema.json''),
             (''type'', JStr ''JsonSchemaValidator2018'')]),
         (''credentialStatus'', JObj
            [(''id'', JStr ''https://ap2-protocol.org/status/registry#revocation-list-1''),
             (''type'', JStr ''RevocationList2020Status'')]),
         (''credentialSubject'', payload)]
      in do {
        proof \<leftarrow> sign env signer created vc;
        Some (JObj (dict_set vc ''proof'' proof))
      })"

section \<open>CryptoLedger\<close>

record crypto_ledger =
  trusted_issuers :: "string \<rightharpoonup> string"
  key_manager :: key_manager
  transactions :: "json list"
  revoked_ids :: "string set"

definition ledger_parse_rfc3339 :: "'a extern_scheme \<Rightarrow> json \<Rightarrow> int option" where
  \<comment> \<open>\<open>strptime\<close> raises TypeError on anything but a string\<close>
  "ledger_parse_rfc3339 env ts =
     (case ts of JStr s \<Rightarrow> strptime env s ''%Y-%m-%dT%H:%M:%SZ'' | _ \<Rightarrow> None)"

text \<open>\<open>now\<close> is what \<open>datetime.utcnow()\<close> returns when this mandate is checked.\<close>

definition ledger_not_expired :: "'a extern_scheme \<Rightarrow> int \<Rightarrow> json \<Rightarrow> bool option" where
  "ledger_not_expired env now vc =
     do {
       exp \<leftarrow> py_get vc ''expirationDate'' JNull;
       if \<not> truthy exp then Some True
       else Some (case ledger_parse_rfc3339 env exp of None \<Rightarrow> False | Some t \<Rightarrow> now < t)
     }"

text \<open>
  \<open>vc_id not in self.revoked_ids\<close>: a list or a dictionary cannot be hashed (TypeError);
  the revoked ids are strings, so no other value is among them.
\<close>

fun not_in_revoked :: "json \<Rightarrow> string set \<Rightarrow> bool option" where
  "not_in_revoked (JStr s) R = Some (s \<notin> R)"
| "not_in_revoked (JList xs) R = None"
| "not_in_revoked (JObj d) R = None"
| "not_in_revoked v R = Some True"

definition ledger_not_revoked :: "crypto_ledger \<Rightarrow> json \<Rightarrow> bool option" where
  "ledger_not_revoked self vc =
     do {
       vc_id \<leftarrow> py_get vc ''id'' JNull;
       if \<not> truthy vc_id then Some False
       else not_in_revoked vc_id (revoked_ids self)
     }"

text \<open>
  \<open>self.trusted_issuers.get(issuer)\<close>: the trust root's keys are strings; a list or a
  dictionary cannot be hashed, and no other value is a key.
\<close>

fun trusted_get :: "(string \<rightharpoonup> string) \<Rightarrow> json \<Rightarrow> string option option" where
  "trusted_get t (JStr s) = Some (t s)"
| "trusted_get t (JList xs) = None"
| "trusted_get t (JObj d) = None"
| "trusted_get t v = Some None"

definition ledger_issuer_trusted :: "'a extern_scheme \<Rightarrow> crypto_ledger \<Rightarrow> json \<Rightarrow> bool option" where
  "ledger_issuer_trusted env self mandate =
     do {
       proof \<leftarrow> py_get mandate ''proof'' (JObj []);
       issuer \<leftarrow> py_get mandate ''issuer'' JNull;
       vm \<leftarrow> py_get proof ''verificationMethod'' JNull;
       if \<not> truthy issuer \<or> \<not> truthy vm then Some False
       else
         do {
           expected_pub_b58 \<leftarrow> trusted_get (trusted_issuers self) issuer;
           (case expected_pub_b58 of
              None \<Rightarrow> Some False
            | Some expected \<Rightarrow>
                if expected = [] then Some False
                else
                  Some (case key_resolve_verification_method env (key_manager self) vm of
                      None \<Rightarrow> False
                    | Some resolved_pub \<Rightarrow> b58encode env resolved_pub = expected))
         }
     }"

definition ledger_verify_mandate ::
  "'a extern_scheme \<Rightarrow> crypto_ledger \<Rightarrow> int \<Rightarrow> json \<Rightarrow> bool option" where
  "ledger_verify_mandate env self now mandate =
     do {
       trusted \<leftarrow> ledger_issuer_trusted env self mandate;
       if \<not> trusted then Some False
       else
         do {
           fresh \<leftarrow> ledger_not_expired env now mandate;
           if \<not> fresh then Some False
           else
             do {
               unrevoked \<leftarrow> ledger_not_revoked self mandate;
               if \<not> unrevoked then Some False
               else verify env (key_manager self) mandate
             }
         }
     }"

definition ledger_vc_previous :: "json \<Rightarrow> json option" where
  "ledger_vc_previous vc =
     do {
       subject \<leftarrow> py_get vc ''credentialSubject'' (JObj []);
       py_get subject ''prev_mandate_id'' JNull
     }"

definition ledger_vc_id :: "json \<Rightarrow> json option" where
  "ledger_vc_id vc = py_get vc ''id'' JNull"

text \<open>\<open>vc["type"][-1]\<close>, the mandate's type tag.\<close>

definition type_tag :: "json \<Rightarrow> json option" where
  "type_tag vc = do { t \<leftarrow> py_item vc ''type''; py_last t }"

text \<open>
  The loop over \<open>zip(mandates, mandates[1:])\<close>. On a mismatch the message that is printed
  reads both type tags before \<open>False\<close> is returned, and raises when one cannot be read.
\<close>

fun ledger_verify_chain :: "json list \<Rightarrow> bool option" where
  "ledger_verify_chain (prev_vc # curr_vc # rest) =
     do {
       p \<leftarrow> ledger_vc_previous curr_vc;
       i \<leftarrow> ledger_vc_id prev_vc;
       if \<not> py_eq p i then
         do {
           _ \<leftarrow> type_tag curr_vc;
           _ \<leftarrow> type_tag prev_vc;
           Some False
         }
       else ledger_verify_chain (curr_vc # rest)
     }"
| "ledger_verify_chain ms = Some True"

text \<open>
  The loop \<open>for vc in mandates\<close> of \<open>add_transaction\<close>; \<open>clock i\<close> is the time read when
  the mandate at position \<open>i\<close> is checked.
\<close>

fun verify_mandates ::
  "'a extern_scheme \<Rightarrow> crypto_ledger \<Rightarrow> (nat \<Rightarrow> int) \<Rightarrow> nat \<Rightarrow> json list \<Rightarrow> bool option" where
  "verify_mandates env self clock i [] = Some True"
| "verify_mandates env self clock i (vc # rest) =
     do {
       ok \<leftarrow> ledger_verify_mandate env self (clock i) vc;
       if \<not> ok then Some False
       else verify_mandates env self clock (Suc i) rest
     }"

text \<open>
  The \<open>try\<close> block of \<open>add_transaction\<close> on the first three mandates: \<open>True\<close> when every
  value could be read and the amounts, currencies and receivers agree.
\<close>

definition add_transaction_terms :: "'a extern_scheme \<Rightarrow> json \<Rightarrow> json \<Rightarrow> json \<Rightarrow> bool" where
  "add_transaction_terms env intent_vc cart_vc payment_vc =
     (case
        do {
          intent_subject \<leftarrow> py_item intent_vc ''credentialSubject'';
          intent_details \<leftarrow> py_item intent_subject ''details'';
          intent_amount \<leftarrow> py_item intent_details ''amount'';
          amount_intent \<leftarrow> py_float env intent_amount;
          intent_details2 \<leftarrow> py_item intent_subject ''details'';
          currency_intent \<leftarrow> py_item intent_details2 ''currency'';
          receiver_intent \<leftarrow> py_item intent_subject ''merchant_id'';

          cart_subject \<leftarrow> py_item cart_vc ''credentialSubject'';
          cart_contents \<leftarrow> py_item cart_subject ''contents'';
          cart_request \<leftarrow> py_item cart_contents ''payment_request'';
          cart_details \<leftarrow> py_item cart_request ''details'';
          cart_total \<leftarrow> py_item cart_details ''total'';
          cart_amount \<leftarrow> py_item cart_total ''amount'';
          cart_value \<leftarrow> py_item cart_amount ''value'';
          total_cart \<leftarrow> py_float env cart_value;
          cart_total2 \<leftarrow> py_item cart_details ''total'';
          cart_amount2 \<leftarrow> py_item cart_total2 ''amount'';
          currency_cart \<leftarrow> py_item cart_amount2 ''currency'';
          receiver_cart \<leftarrow> py_item cart_subject ''merchant_id'';

          payment_subject \<leftarrow> py_item payment_vc ''credentialSubject'';
          payment_details \<leftarrow> py_item payment_subject ''payment_details'';
          payment_amount \<leftarrow> py_item payment_details ''amount'';
          amount_payment \<leftarrow> py_float env payment_amount;
          currency_payment \<leftarrow> py_item payment_details ''currency'';
          receiver_payment \<leftarrow> py_item payment_subject ''merchant_id'';

          Some (float_eq amount_intent total_cart \<and> float_eq total_cart amount_payment
                \<and> py_eq currency_intent currency_cart \<and> py_eq currency_cart currency_payment
                \<and> py_eq receiver_intent receiver_cart \<and> py_eq receiver_cart receiver_payment)
        }
      of None \<Rightarrow> False | Some ok \<Rightarrow> ok)"

text \<open>
  \<open>len(mandates) >= 3 and mandates[0]["type"][-1] == "IntentMandate"\<close>, then the \<open>try\<close>
  block on \<open>mandates[:3]\<close>. The type tag is read outside the \<open>try\<close>.
\<close>

fun add_transaction_check :: "'a extern_scheme \<Rightarrow> json list \<Rightarrow> bool option" where
  "add_transaction_check env (intent_vc # cart_vc # payment_vc # rest) =
     do {
       tag \<leftarrow> type_tag intent_vc;
       if py_eq tag (JStr ''IntentMandate'')
       then Some (add_transaction_terms env intent_vc cart_vc payment_vc)
       else Some True
     }"
| "add_transaction_check env ms = Some True"

text \<open>
  \<open>add_transaction\<close> returns a boolean or raises, and leaves the ledger as it is unless
  it returns \<open>True\<close>. A \<open>mandates\<close> value that is true and not a list raises: iterating a
  string or a dictionary hands strings to \<open>ledger_verify_mandate\<close>, a number cannot be
  iterated.
\<close>

definition add_transaction ::
  "'a extern_scheme \<Rightarrow> (nat \<Rightarrow> int) \<Rightarrow> crypto_ledger \<Rightarrow> json \<Rightarrow> bool option \<times> crypto_ledger" where
  "add_transaction env clock self txn_record =
     (case py_get txn_record ''mandates'' (JList []) of
        None \<Rightarrow> (None, self)
      | Some mv \<Rightarrow>
          if \<not> truthy mv then (Some False, self)
          else
            (case mv of
               JList mandates \<Rightarrow>
                 (case verify_mandates env self clock 0 mandates of
                    None \<Rightarrow> (None, self)
                  | Some False \<Rightarrow> (Some False, self)
                  | Some True \<Rightarrow>
                      (case ledger_verify_chain mandates of
                         None \<Rightarrow> (None, self)
                       | Some False \<Rightarrow> (Some False, self)
                       | Some True \<Rightarrow>
                           (case add_transaction_check env mandates of
                              None \<Rightarrow> (None, self)
                            | Some False \<Rightarrow> (Some False, self)
                            | Some True \<Rightarrow>
                                (Some True,
                                 self\<lparr>transactions := transactions self @ [txn_record]\<rparr>))))
             | _ \<Rightarrow> (None, self)))"

text \<open>
  \<open>ledger_check_consistency\<close>, with its own copy of the extraction, in its own order.
  \<open>len\<close> and the type tag are read outside the \<open>try\<close>.
\<close>

definition ledger_check_consistency_terms ::
  "'a extern_scheme \<Rightarrow> json \<Rightarrow> json \<Rightarrow> json \<Rightarrow> bool" where
  "ledger_check_consistency_terms env intent_vc cart_vc payment_vc =
     (case
        do {
          intent_subject \<leftarrow> py_item intent_vc ''credentialSubject'';
          cart_subject \<leftarrow> py_item cart_vc ''credentialSubject'';
          payment_subject \<leftarrow> py_item payment_vc ''credentialSubject'';

          intent_details \<leftarrow> py_item intent_subject ''details'';
          intent_amount \<leftarrow> py_item intent_details ''amount'';
          amount_intent \<leftarrow> py_float env intent_amount;
          intent_details2 \<leftarrow> py_item intent_subject ''details'';
          currency_intent \<leftarrow> py_item intent_details2 ''currency'';
          receiver_intent \<leftarrow> py_item intent_subject ''merchant_id'';

          cart_contents \<leftarrow> py_item cart_subject ''contents'';
          cart_request \<leftarrow> py_item cart_contents ''payment_request'';
          cart_details \<leftarrow> py_item cart_request ''details'';
          cart_total \<leftarrow> py_item cart_details ''total'';
          cart_amount \<leftarrow> py_item cart_total ''amount'';
          cart_value \<leftarrow> py_item cart_amount ''value'';
          total_cart \<leftarrow> py_float env cart_value;
          cart_total2 \<leftarrow> py_item cart_details ''total'';
          cart_amount2 \<leftarrow> py_item cart_total2 ''amount'';
          currency_cart \<leftarrow> py_item cart_amount2 ''currency'';
          receiver_cart \<leftarrow> py_item cart_subject ''merchant_id'';

          payment_details \<leftarrow> py_item payment_subject ''payment_details'';
          payment_amount \<leftarrow> py_item payment_details ''amount'';
          amount_payment \<leftarrow> py_float env payment_amount;
          currency_payment \<leftarrow> py_item payment_details ''currency'';
          receiver_payment \<leftarrow> py_item payment_subject ''merchant_id'';

          Some (float_eq amount_intent total_cart \<and> float_eq total_cart amount_payment
                \<and> py_eq currency_intent currency_cart \<and> py_eq currency_cart currency_payment
                \<and> py_eq receiver_intent receiver_cart \<and> py_eq receiver_cart receiver_payment)
        }
      of None \<Rightarrow> False | Some ok \<Rightarrow> ok)"

text \<open>
  \<open>mandates[0]\<close> and \<open>mandates[:3]\<close> on a value that is not a list: a string of three
  characters or more gives a character, whose \<open>["type"]\<close> raises; a dictionary raises
  KeyError on the key \<open>0\<close>.
\<close>

definition ledger_check_consistency :: "'a extern_scheme \<Rightarrow> json \<Rightarrow> bool option" where
  "ledger_check_consistency env txn =
     do {
       mv \<leftarrow> py_get txn ''mandates'' (JList []);
       n \<leftarrow> py_len mv;
       if n \<ge> 3 then
         (case mv of
            JList (intent_vc # cart_vc # payment_vc # rest) \<Rightarrow>
              do {
                tag \<leftarrow> type_tag intent_vc;
                if py_eq tag (JStr ''IntentMandate'')
                then Some (ledger_check_consistency_terms env intent_vc cart_vc payment_vc)
                else Some True
              }
          | _ \<Rightarrow> None)
       else Some True
     }"

definition key_export_public_keys ::
  "'a extern_scheme \<Rightarrow> key_manager \<Rightarrow> (string \<rightharpoonup> string)" where
  "key_export_public_keys env km = (\<lambda>issuer. key_get_pubkey_b58 env km issuer)"

section \<open>What the specification says, in its own words\<close>

text \<open>
  Chain linkage: \<open>current.credentialSubject.prev_mandate_id\<close> equals \<open>previous.id\<close>.
\<close>

definition linked :: "json \<Rightarrow> json \<Rightarrow> bool" where
  "linked prev_vc curr_vc =
     (\<exists>p q. ledger_vc_previous curr_vc = Some p \<and> ledger_vc_id prev_vc = Some q \<and> py_eq p q)"

text \<open>The value at a payload path, when every step of the path is there.\<close>

fun py_path :: "json \<Rightarrow> string list \<Rightarrow> json option" where
  "py_path v [] = Some v"
| "py_path v (k # ks) = (case py_item v k of None \<Rightarrow> None | Some w \<Rightarrow> py_path w ks)"

text \<open>
  The amount (as a number), the currency and the receiver of a record, read at the payload
  paths the specification fixes for an intent, a cart and a payment record.
\<close>

definition terms_at ::
  "'a extern_scheme \<Rightarrow> json \<Rightarrow> string list \<Rightarrow> string list \<Rightarrow> (pyfloat \<times> json \<times> json) option" where
  "terms_at env vc amount_path currency_path =
     (case py_path vc amount_path of
        None \<Rightarrow> None
      | Some a \<Rightarrow>
          (case py_float env a of
             None \<Rightarrow> None
           | Some amount \<Rightarrow>
               (case py_path vc currency_path of
                  None \<Rightarrow> None
                | Some currency \<Rightarrow>
                    (case py_path vc [''credentialSubject'', ''merchant_id''] of
                       None \<Rightarrow> None
                     | Some receiver \<Rightarrow> Some (amount, currency, receiver)))))"

definition intent_terms :: "'a extern_scheme \<Rightarrow> json \<Rightarrow> (pyfloat \<times> json \<times> json) option" where
  "intent_terms env vc =
     terms_at env vc [''credentialSubject'', ''details'', ''amount'']
       [''credentialSubject'', ''details'', ''currency'']"

definition cart_terms :: "'a extern_scheme \<Rightarrow> json \<Rightarrow> (pyfloat \<times> json \<times> json) option" where
  "cart_terms env vc =
     terms_at env vc
       [''credentialSubject'', ''contents'', ''payment_request'', ''details'', ''total'',
        ''amount'', ''value'']
       [''credentialSubject'', ''contents'', ''payment_request'', ''details'', ''total'',
        ''amount'', ''currency'']"

definition payment_terms :: "'a extern_scheme \<Rightarrow> json \<Rightarrow> (pyfloat \<times> json \<times> json) option" where
  "payment_terms env vc =
     terms_at env vc [''credentialSubject'', ''payment_details'', ''amount'']
       [''credentialSubject'', ''payment_details'', ''currency'']"

fun terms_agree :: "pyfloat \<times> json \<times> json \<Rightarrow> pyfloat \<times> json \<times> json \<Rightarrow> bool" where
  "terms_agree (a1, c1, r1) (a2, c2, r2) = (float_eq a1 a2 \<and> py_eq c1 c2 \<and> py_eq r1 r2)"

section \<open>A small instance\<close>

text \<open>
  Stand-ins for the libraries, to run the model on concrete batches: the canonical bytes
  of a record are its id, a signature is the key followed by the message, the public key
  is the private key behind \<open>pub:\<close>, and the base-58 text of a byte string is the string
  behind a \<open>z\<close>. Two timestamps parse.
\<close>

definition demo_normalize :: "json \<Rightarrow> bytes option" where
  "demo_normalize body = (case py_get body ''id'' JNull of Some (JStr s) \<Rightarrow> Some s | _ \<Rightarrow> None)"

definition demo_b58decode :: "string \<Rightarrow> bytes option" where
  "demo_b58decode s = (case s of [] \<Rightarrow> None | c # b \<Rightarrow> if c = CHR ''z'' then Some b else None)"

definition demo_strptime :: "string \<Rightarrow> string \<Rightarrow> int option" where
  "demo_strptime ts fmt =
     (if fmt = ''%Y-%m-%dT%H:%M:%SZ''
      then map_of [(''2030-01-01T00:00:00Z'', 2030), (''2020-01-01T00:00:00Z'', 2020)] ts
      else None)"

definition demo_env :: extern where
  "demo_env = \<lparr>
     jsonld_normalize = demo_normalize,
     ed25519_sign = (\<lambda>sk msg. sk @ ''|'' @ msg),
     ed25519_verify = (\<lambda>pk msg sig. sig = drop 4 pk @ ''|'' @ msg),
     verify_key = (\<lambda>sk. ''pub:'' @ sk),
     b58encode = (\<lambda>b. CHR ''z'' # b),
     b58decode = demo_b58decode,
     strptime = demo_strptime,
     float_of_int = (\<lambda>i. Some (Fin (of_int i))),
     float_of_str = (\<lambda>s. None) \<rparr>"

definition demo_km :: key_manager where
  "demo_km = \<lparr> keys =
     [''issuer:user-wallet'' \<mapsto> ''ku'', ''issuer:merchant'' \<mapsto> ''km'',
      ''issuer:processor'' \<mapsto> ''kp'', ''issuer:netting'' \<mapsto> ''kn''] \<rparr>"

definition demo_ledger :: crypto_ledger where
  "demo_ledger = \<lparr>
     trusted_issuers = key_export_public_keys demo_env demo_km,
     key_manager = demo_km,
     transactions = [],
     revoked_ids = {''urn:uuid:revoked''} \<rparr>"

definition demo_clock :: "nat \<Rightarrow> int" where
  "demo_clock i = 2029"

text \<open>A signed record of the instance: id, type, issuer, expiry, subject and proof.\<close>

definition demo_vc ::
  "string \<Rightarrow> string \<Rightarrow> string \<Rightarrow> string \<Rightarrow> json \<Rightarrow> json \<Rightarrow> dict \<Rightarrow> json" where
  "demo_vc vc_id mandate_type issuer sk expiry prev_id subject =
     JObj [(''id'', JStr vc_id),
           (''type'', JList [JStr ''VerifiableCredential'', JStr mandate_type]),
           (''issuer'', JStr issuer),
           (''expirationDate'', expiry),
           (''credentialSubject'',
              JObj ((''prev_mandate_id'', prev_id) # (''merchant_id'', JStr ''merchant'') # subject)),
           (''proof'', JObj [(''verificationMethod'', JStr (issuer @ ''#keys-1'')),
                             (''proofValue'', JStr (''z'' @ sk @ ''|'' @ vc_id))])]"

definition demo_intent_at :: "string \<Rightarrow> json \<Rightarrow> json" where
  "demo_intent_at vc_id expiry =
     demo_vc vc_id ''IntentMandate'' ''issuer:user-wallet'' ''ku'' expiry JNull
       [(''details'', JObj [(''amount'', JFloat (Fin 100)), (''currency'', JStr ''EUR'')])]"

definition demo_intent :: json where
  "demo_intent = demo_intent_at ''urn:uuid:intent'' (JStr ''2030-01-01T00:00:00Z'')"

definition demo_cart :: "string \<Rightarrow> rat \<Rightarrow> json" where
  "demo_cart prev_id amount =
     demo_vc ''urn:uuid:cart'' ''CartMandate'' ''issuer:merchant'' ''km''
       (JStr ''2030-01-01T00:00:00Z'') (JStr prev_id)
       [(''contents'', JObj [(''payment_request'', JObj [(''details'', JObj [(''total'',
           JObj [(''amount'',
             JObj [(''currency'', JStr ''EUR''), (''value'', JFloat (Fin amount))])])])])])]"

definition demo_netting :: json where
  "demo_netting =
     demo_vc ''urn:uuid:netting'' ''NettingMandate'' ''issuer:netting'' ''kn''
       (JStr ''2030-01-01T00:00:00Z'') (JStr ''urn:uuid:cart'')
       [(''payment_details'', JObj [(''amount'', JFloat (Fin 100)), (''currency'', JStr ''EUR'')])]"

definition demo_netting_at :: "rat \<Rightarrow> json" where
  "demo_netting_at amount =
     demo_vc ''urn:uuid:netting'' ''NettingMandate'' ''issuer:netting'' ''kn''
       (JStr ''2030-01-01T00:00:00Z'') (JStr ''urn:uuid:cart'')
       [(''payment_details'',
           JObj [(''amount'', JFloat (Fin amount)), (''currency'', JStr ''EUR'')])]"

definition demo_payment :: "string \<Rightarrow> rat \<Rightarrow> json" where
  "demo_payment prev_id amount =
     demo_vc ''urn:uuid:payment'' ''PaymentMandate'' ''issuer:processor'' ''kp''
       (JStr ''2030-01-01T00:00:00Z'') (JStr prev_id)
       [(''payment_details'',
           JObj [(''amount'', JFloat (Fin amount)), (''currency'', JStr ''EUR'')])]"

definition demo_txn :: "json list \<Rightarrow> json" where
  "demo_txn ms = JObj [(''transaction_id'', JStr ''txn-1''), (''mandates'', JList ms)]"




section \<open>Lemmas on the checks\<close>

lemmas demo_defs =
  demo_env_def demo_km_def demo_ledger_def demo_clock_def demo_vc_def demo_intent_at_def
  demo_intent_def demo_cart_def demo_netting_def demo_payment_def demo_txn_def
  demo_normalize_def demo_b58decode_def demo_strptime_def key_export_public_keys_def

lemmas ledger_defs =
  ledger_verify_mandate_def ledger_issuer_trusted_def ledger_not_expired_def
  ledger_not_revoked_def ledger_parse_rfc3339_def verify_def
  json_canonicalize_vc_for_signing_def dict_pop_def key_get_pubkey_b58_def
  ledger_vc_previous_def ledger_vc_id_def type_tag_def float_eq_def

lemma bind_eq_Some_True:
  "(Option.bind m (\<lambda>b. if \<not> b then Some False else k) = Some True) = (m = Some True \<and> k = Some True)"
  by (cases m) auto

lemma ledger_verify_mandate_True:
  "ledger_verify_mandate env self now m = Some True \<longleftrightarrow>
     ledger_issuer_trusted env self m = Some True \<and>
     ledger_not_expired env now m = Some True \<and>
     ledger_not_revoked self m = Some True \<and>
     verify env (key_manager self) m = Some True"
  unfolding ledger_verify_mandate_def by (simp add: bind_eq_Some_True)

lemma verify_mandates_True:
  "verify_mandates env self clock k ms = Some True \<longleftrightarrow>
     (\<forall>i < length ms. ledger_verify_mandate env self (clock (k + i)) (ms ! i) = Some True)"
proof (induction ms arbitrary: k)
  case Nil
  then show ?case by simp
next
  case (Cons m ms)
  show ?case
    by (simp add: bind_eq_Some_True Cons.IH All_less_Suc2 del: not_False_eq_True)
qed

lemma all_nat_0_Suc: "(\<forall>i. Q i) \<longleftrightarrow> Q 0 \<and> (\<forall>i. Q (Suc i))"
  by (metis old.nat.exhaust)

lemma pairs_Cons:
  "(\<forall>i. Suc i < length (x # y # ys) \<longrightarrow> P ((x # y # ys) ! i) ((x # y # ys) ! Suc i)) \<longleftrightarrow>
     P x y \<and> (\<forall>i. Suc i < length (y # ys) \<longrightarrow> P ((y # ys) ! i) ((y # ys) ! Suc i))"
  by (subst all_nat_0_Suc) simp

lemma ledger_verify_chain_step:
  "ledger_verify_chain (prev_vc # curr_vc # rest) = Some True \<longleftrightarrow>
     linked prev_vc curr_vc \<and> ledger_verify_chain (curr_vc # rest) = Some True"
  by (auto simp: linked_def bind_eq_Some_conv split: if_splits)

lemma ledger_verify_chain_True:
  "ledger_verify_chain ms = Some True \<longleftrightarrow>
     (\<forall>i. Suc i < length ms \<longrightarrow> linked (ms ! i) (ms ! Suc i))"
proof (induction ms rule: ledger_verify_chain.induct)
  case (1 prev_vc curr_vc rest)
  show ?case
  proof (cases "linked prev_vc curr_vc")
    case True
    then obtain p i where pi:
      "ledger_vc_previous curr_vc = Some p" "ledger_vc_id prev_vc = Some i" "py_eq p i"
      by (auto simp: linked_def)
    have "ledger_verify_chain (curr_vc # rest) = Some True \<longleftrightarrow>
        (\<forall>i. Suc i < length (curr_vc # rest) \<longrightarrow>
           linked ((curr_vc # rest) ! i) ((curr_vc # rest) ! Suc i))"
      using 1 [OF pi(1) pi(2)] pi(3) by simp
    then show ?thesis
      unfolding ledger_verify_chain_step pairs_Cons using True by simp
  next
    case False
    then show ?thesis
      unfolding ledger_verify_chain_step pairs_Cons by simp
  qed
qed simp_all

lemma add_transaction_accept:
  "fst (add_transaction env clock self txn) = Some True \<longleftrightarrow>
     (\<exists>ms. py_get txn ''mandates'' (JList []) = Some (JList ms) \<and> ms \<noteq> [] \<and>
        verify_mandates env self clock 0 ms = Some True \<and>
        ledger_verify_chain ms = Some True \<and>
        add_transaction_check env ms = Some True)"
  unfolding add_transaction_def
  by (auto split: option.splits json.splits bool.splits)

lemma add_transaction_state:
  "snd (add_transaction env clock self txn) =
     (if fst (add_transaction env clock self txn) = Some True
      then self\<lparr>transactions := transactions self @ [txn]\<rparr> else self)"
  unfolding add_transaction_def
  by (auto split: option.splits json.splits bool.splits)

lemma terms_same:
  "ledger_check_consistency_terms env a b c = add_transaction_terms env a b c"
  unfolding ledger_check_consistency_terms_def add_transaction_terms_def
  by (auto split: option.splits Option.bind_splits)

lemma demo_intent_ok:
  "ledger_verify_mandate demo_env demo_ledger 2029 demo_intent = Some True"
  by (simp add: demo_defs ledger_defs)

lemma demo_cart_ok:
  "ledger_verify_mandate demo_env demo_ledger 2029 (demo_cart p a) = Some True"
  by (simp add: demo_defs ledger_defs)

lemma demo_netting_ok:
  "ledger_verify_mandate demo_env demo_ledger 2029 demo_netting = Some True"
  by (simp add: demo_defs ledger_defs)

lemma demo_payment_ok:
  "ledger_verify_mandate demo_env demo_ledger 2029 (demo_payment p a) = Some True"
  by (simp add: demo_defs ledger_defs)

lemma demo_mandates [simp]: "py_get (demo_txn ms) ''mandates'' (JList []) = Some (JList ms)"
  by (simp add: demo_txn_def)

section \<open>The claims\<close>

text \<open>
  C8. \<open>add_transaction\<close> rejects a batch with no mandates; whenever it does not accept,
  the ledger it leaves is the ledger it was given; when it accepts, the transaction
  sequence is the prior one with the submitted record appended, and the trust root, the
  revoked ids and the key manager are unchanged.
\<close>

theorem add_transaction_commit:
  assumes "add_transaction env clock self txn = (r, self')"
  shows "(py_get txn ''mandates'' (JList []) = Some (JList []) \<longrightarrow> r = Some False)
       \<and> (r \<noteq> Some True \<longrightarrow> self' = self)
       \<and> (r = Some True \<longrightarrow>
            transactions self' = transactions self @ [txn]
            \<and> trusted_issuers self' = trusted_issuers self
            \<and> revoked_ids self' = revoked_ids self
            \<and> key_manager self' = key_manager self)"
proof -
  have r: "r = fst (add_transaction env clock self txn)"
    and s: "self' = snd (add_transaction env clock self txn)"
    using assms by simp_all
  have empty: "py_get txn ''mandates'' (JList []) = Some (JList []) \<longrightarrow> r = Some False"
    unfolding r add_transaction_def by simp
  show ?thesis
    using empty unfolding s add_transaction_state r by simp
qed

lemma demo_three_accepted:
  "fst (add_transaction demo_env demo_clock demo_ledger
      (demo_txn [demo_intent, demo_cart ''urn:uuid:intent'' 100,
                 demo_payment ''urn:uuid:cart'' 100])) = Some True"
  unfolding add_transaction_accept verify_mandates_True ledger_verify_chain_True
  by (simp add: All_less_Suc2 demo_clock_def demo_intent_ok demo_cart_ok demo_payment_ok
      all_nat_0_Suc [of "\<lambda>i. Suc i < _ \<longrightarrow> _ i"])
    (simp add: linked_def demo_defs ledger_defs add_transaction_terms_def)

theorem add_transaction_commit_witness:
  "add_transaction demo_env demo_clock demo_ledger (demo_txn []) = (Some False, demo_ledger)
   \<and> fst (add_transaction demo_env demo_clock demo_ledger
        (demo_txn [demo_intent, demo_cart ''urn:uuid:intent'' 100,
                   demo_payment ''urn:uuid:cart'' 100])) = Some True
   \<and> transactions (snd (add_transaction demo_env demo_clock demo_ledger
        (demo_txn [demo_intent, demo_cart ''urn:uuid:intent'' 100,
                   demo_payment ''urn:uuid:cart'' 100])))
       = [demo_txn [demo_intent, demo_cart ''urn:uuid:intent'' 100,
                    demo_payment ''urn:uuid:cart'' 100]]
   \<and> revoked_ids (snd (add_transaction demo_env demo_clock demo_ledger
        (demo_txn [demo_intent, demo_cart ''urn:uuid:intent'' 100,
                   demo_payment ''urn:uuid:cart'' 100])))
       = {''urn:uuid:revoked''}"
proof -
  let ?t = "demo_txn [demo_intent, demo_cart ''urn:uuid:intent'' 100,
                      demo_payment ''urn:uuid:cart'' 100]"
  have e: "add_transaction demo_env demo_clock demo_ledger (demo_txn [])
      = (fst (add_transaction demo_env demo_clock demo_ledger (demo_txn [])),
         snd (add_transaction demo_env demo_clock demo_ledger (demo_txn [])))"
    by simp
  have a: "add_transaction demo_env demo_clock demo_ledger ?t
      = (Some True, snd (add_transaction demo_env demo_clock demo_ledger ?t))"
    using demo_three_accepted by (metis prod.collapse)
  have "transactions demo_ledger = []" "revoked_ids demo_ledger = {''urn:uuid:revoked''}"
    by (simp_all add: demo_ledger_def)
  then show ?thesis
    using add_transaction_commit [OF e] add_transaction_commit [OF a] demo_three_accepted
    by (metis (no_types, lifting) append_Nil demo_mandates option.inject prod.collapse)
qed

lemma accepted_each_verified:
  assumes "fst (add_transaction env clock self txn) = Some True"
      and "py_get txn ''mandates'' (JList []) = Some (JList ms)"
      and "i < length ms"
  shows "ledger_verify_mandate env self (clock i) (ms ! i) = Some True"
  using assms unfolding add_transaction_accept verify_mandates_True by auto

lemma ledger_issuer_trusted_True:
  assumes "ledger_issuer_trusted env self m = Some True"
  shows "\<exists>d issuer pr vm expected resolved.
           m = JObj d \<and> map_of d ''issuer'' = Some (JStr issuer) \<and> map_of d ''proof'' = Some pr \<and>
           py_get pr ''verificationMethod'' JNull = Some vm \<and>
           trusted_issuers self issuer = Some expected \<and>
           key_resolve_verification_method env (key_manager self) vm = Some resolved \<and>
           b58encode env resolved = expected"
proof -
  obtain d where m: "m = JObj d"
    using assms by (cases m) (simp_all add: ledger_issuer_trusted_def)
  have pn: "map_of d ''proof'' \<noteq> None"
  proof
    assume "map_of d ''proof'' = None"
    then show False using assms by (simp add: m ledger_issuer_trusted_def)
  qed
  then obtain pr where pr: "map_of d ''proof'' = Some pr"
    by auto
  obtain pd where pd: "pr = JObj pd"
    using assms by (cases pr) (simp_all add: m ledger_issuer_trusted_def pr)
  obtain vm where vm: "py_get pr ''verificationMethod'' JNull = Some vm"
    by (simp add: pd)
  obtain iss where iss: "py_get m ''issuer'' JNull = Some iss"
    by (simp add: m)
  have a: "(if \<not> truthy iss \<or> \<not> truthy vm then Some False
       else trusted_get (trusted_issuers self) iss \<bind>
            (\<lambda>expected_pub_b58. case expected_pub_b58 of None \<Rightarrow> Some False
              | Some expected \<Rightarrow> if expected = [] then Some False
                  else Some (case key_resolve_verification_method env (key_manager self) vm of
                      None \<Rightarrow> False | Some resolved_pub \<Rightarrow> b58encode env resolved_pub = expected))) = Some True"
  proof -
    have p0: "py_get m ''proof'' (JObj []) = Some pr" by (simp add: m pr)
    show ?thesis
      using assms unfolding ledger_issuer_trusted_def p0 iss by (simp add: vm)
  qed
  then have t: "truthy iss" "truthy vm" by (auto split: if_splits)
  obtain issuer where i: "iss = JStr issuer"
    using a t by (cases iss) (auto split: option.splits if_splits)
  have "map_of d ''issuer'' = Some (JStr issuer)"
    using i t iss unfolding m by (cases "map_of d ''issuer''") auto
  moreover obtain expected resolved where "trusted_issuers self issuer = Some expected"
     "key_resolve_verification_method env (key_manager self) vm = Some resolved"
     "b58encode env resolved = expected"
    using a t unfolding i by (auto split: option.splits if_splits)
  ultimately show ?thesis using m pr vm by blast
qed

text \<open>
  C2. \<open>add_transaction\<close> accepts a batch only if, for every mandate of it, the issuer is
  a string that the trust root maps to a key, the proof carries a verification method
  that the key manager resolves, and the base-58 text of the resolved key is the trust
  root's registered key for that issuer. The trust root stores keys as base-58 text, and
  it is this text that is compared. An unknown or missing issuer, a missing verification
  method, a failed resolution or another key therefore keeps the batch out, whatever the
  signature.
\<close>

theorem add_transaction_trust_gate:
  assumes "fst (add_transaction env clock self txn) = Some True"
      and "py_get txn ''mandates'' (JList []) = Some (JList ms)"
      and "m \<in> set ms"
  shows "\<exists>d issuer pr vm expected resolved.
           m = JObj d \<and> map_of d ''issuer'' = Some (JStr issuer) \<and> map_of d ''proof'' = Some pr \<and>
           py_get pr ''verificationMethod'' JNull = Some vm \<and>
           trusted_issuers self issuer = Some expected \<and>
           key_resolve_verification_method env (key_manager self) vm = Some resolved \<and>
           b58encode env resolved = expected"
proof -
  obtain i where "i < length ms" "m = ms ! i"
    using assms(3) by (auto simp: in_set_conv_nth)
  then have "ledger_issuer_trusted env self m = Some True"
    using accepted_each_verified [OF assms(1,2)] by (simp add: ledger_verify_mandate_True)
  then show ?thesis by (rule ledger_issuer_trusted_True)
qed

theorem add_transaction_trust_gate_witness:
  "trusted_issuers demo_ledger ''issuer:user-wallet'' = Some ''zpub:ku''
   \<and> (\<exists>d pr vm resolved.
        demo_intent = JObj d \<and> map_of d ''issuer'' = Some (JStr ''issuer:user-wallet'') \<and>
        map_of d ''proof'' = Some pr \<and>
        py_get pr ''verificationMethod'' JNull = Some vm \<and>
        key_resolve_verification_method demo_env (key_manager demo_ledger) vm = Some resolved \<and>
        b58encode demo_env resolved = ''zpub:ku'')"
proof -
  have t: "trusted_issuers demo_ledger ''issuer:user-wallet'' = Some ''zpub:ku''"
    by (simp add: demo_defs ledger_defs)
  have i: "map_of d ''issuer'' = Some (JStr ''issuer:user-wallet'')" if "demo_intent = JObj d" for d
    using that by (auto simp: demo_defs)
  have "demo_intent \<in> set [demo_intent, demo_cart ''urn:uuid:intent'' 100,
      demo_payment ''urn:uuid:cart'' 100]"
    by simp
  from add_transaction_trust_gate [OF demo_three_accepted demo_mandates this]
  obtain d issuer pr vm expected resolved where f:
    "demo_intent = JObj d" "map_of d ''issuer'' = Some (JStr issuer)"
    "map_of d ''proof'' = Some pr" "py_get pr ''verificationMethod'' JNull = Some vm"
    "trusted_issuers demo_ledger issuer = Some expected"
    "key_resolve_verification_method demo_env (key_manager demo_ledger) vm = Some resolved"
    "b58encode demo_env resolved = expected"
    by blast
  have "issuer = ''issuer:user-wallet''"
    using i [OF f(1)] f(2) by simp
  then have "expected = ''zpub:ku''"
    using t f(5) by simp
  then have "b58encode demo_env resolved = ''zpub:ku''"
    using f(7) by simp
  with f(1,3,4,6) i [OF f(1)] have "\<exists>d pr vm resolved.
        demo_intent = JObj d \<and> map_of d ''issuer'' = Some (JStr ''issuer:user-wallet'') \<and>
        map_of d ''proof'' = Some pr \<and>
        py_get pr ''verificationMethod'' JNull = Some vm \<and>
        key_resolve_verification_method demo_env (key_manager demo_ledger) vm = Some resolved \<and>
        b58encode demo_env resolved = ''zpub:ku''"
    by (intro exI conjI)
  with t show ?thesis by (rule conjI)
qed

lemma ledger_not_revoked_True:
  assumes "ledger_not_revoked self m = Some True"
  shows "\<exists>d v. m = JObj d \<and> map_of d ''id'' = Some v \<and> truthy v \<and> (\<forall>s. v = JStr s \<longrightarrow> s \<notin> revoked_ids self)"
proof -
  obtain d where m: "m = JObj d"
    using assms by (cases m) (simp_all add: ledger_not_revoked_def)
  obtain v where v: "map_of d ''id'' = Some v"
    using assms unfolding m ledger_not_revoked_def by (cases "map_of d ''id''") simp_all
  have "truthy v" "not_in_revoked v (revoked_ids self) = Some True"
    using assms unfolding m ledger_not_revoked_def by (auto simp: v split: if_splits)
  then show ?thesis using m v by auto
qed

text \<open>
  C6. A batch with a mandate whose id is missing, or is among the ledger's revoked ids,
  is not accepted, and the ledger stays as it was.
\<close>

theorem add_transaction_revoked:
  assumes "py_get txn ''mandates'' (JList []) = Some (JList ms)"
      and "m \<in> set ms"
      and "(\<exists>d. m = JObj d \<and> map_of d ''id'' = None)
           \<or> (\<exists>s. py_get m ''id'' JNull = Some (JStr s) \<and> s \<in> revoked_ids self)"
  shows "fst (add_transaction env clock self txn) \<noteq> Some True
       \<and> snd (add_transaction env clock self txn) = self"
proof -
  have "fst (add_transaction env clock self txn) \<noteq> Some True"
  proof
    assume acc: "fst (add_transaction env clock self txn) = Some True"
    obtain i where "i < length ms" "m = ms ! i"
      using assms(2) by (auto simp: in_set_conv_nth)
    then have "ledger_not_revoked self m = Some True"
      using accepted_each_verified [OF acc assms(1)] by (simp add: ledger_verify_mandate_True)
    from ledger_not_revoked_True [OF this] assms(3) show False by auto
  qed
  then show ?thesis by (simp add: add_transaction_state)
qed

theorem add_transaction_revoked_witness:
  "py_get (demo_intent_at ''urn:uuid:revoked'' (JStr ''2030-01-01T00:00:00Z'')) ''id'' JNull
     = Some (JStr ''urn:uuid:revoked'')
   \<and> ''urn:uuid:revoked'' \<in> revoked_ids demo_ledger
   \<and> fst (add_transaction demo_env demo_clock demo_ledger
        (demo_txn [demo_intent_at ''urn:uuid:revoked'' (JStr ''2030-01-01T00:00:00Z'')]))
      \<noteq> Some True
   \<and> snd (add_transaction demo_env demo_clock demo_ledger
        (demo_txn [demo_intent_at ''urn:uuid:revoked'' (JStr ''2030-01-01T00:00:00Z'')]))
      = demo_ledger"
proof -
  let ?m = "demo_intent_at ''urn:uuid:revoked'' (JStr ''2030-01-01T00:00:00Z'')"
  have a: "py_get ?m ''id'' JNull = Some (JStr ''urn:uuid:revoked'')"
    by (simp add: demo_defs)
  have b: "''urn:uuid:revoked'' \<in> revoked_ids demo_ledger"
    by (simp add: demo_ledger_def)
  have c: "?m \<in> set [?m]" by simp
  have h: "(\<exists>d. ?m = JObj d \<and> map_of d ''id'' = None)
           \<or> (\<exists>s. py_get ?m ''id'' JNull = Some (JStr s) \<and> s \<in> revoked_ids demo_ledger)"
    using a b by (intro disjI2 exI conjI)
  have r: "fst (add_transaction demo_env demo_clock demo_ledger (demo_txn [?m])) \<noteq> Some True
       \<and> snd (add_transaction demo_env demo_clock demo_ledger (demo_txn [?m])) = demo_ledger"
    by (rule add_transaction_revoked [OF demo_mandates c h])
  show ?thesis
    by (intro conjI a b conjunct1 [OF r] conjunct2 [OF r])
qed

lemma ledger_not_expired_True:
  assumes "ledger_not_expired env now m = Some True"
      and "py_get m ''expirationDate'' JNull = Some e" and "truthy e"
  shows "\<exists>s t. e = JStr s \<and> strptime env s ''%Y-%m-%dT%H:%M:%SZ'' = Some t \<and> now < t"
  using assms unfolding ledger_not_expired_def ledger_parse_rfc3339_def
  by (auto split: option.splits json.splits)

lemma demo_blank_ok:
  "ledger_verify_mandate demo_env demo_ledger 2029 (demo_intent_at ''urn:uuid:blank'' (JStr [])) = Some True"
  by (simp add: demo_defs ledger_defs)

lemma demo_blank_accepted:
  "fst (add_transaction demo_env demo_clock demo_ledger
      (demo_txn [demo_intent_at ''urn:uuid:blank'' (JStr [])])) = Some True"
  unfolding add_transaction_accept verify_mandates_True ledger_verify_chain_True
  by (simp add: demo_clock_def demo_blank_ok)

text \<open>
  C5, as the code has it. For a mandate whose \<open>expirationDate\<close> is a true value (not
  \<open>None\<close>, not the empty string, not zero, not an empty container), the batch is accepted
  only if the value is a string that parses in the format \<open>%Y-%m-%dT%H:%M:%SZ\<close> to an
  instant strictly after the time read for that mandate. A mandate whose expiration is
  absent or is a false value passes the expiry check.
\<close>

theorem add_transaction_expiry:
  assumes "py_get txn ''mandates'' (JList []) = Some (JList ms)"
      and "i < length ms"
      and "py_get (ms ! i) ''expirationDate'' JNull = Some e"
  shows "(fst (add_transaction env clock self txn) = Some True \<and> truthy e \<longrightarrow>
            (\<exists>s t. e = JStr s \<and> strptime env s ''%Y-%m-%dT%H:%M:%SZ'' = Some t \<and> clock i < t))
       \<and> (\<not> truthy e \<longrightarrow> ledger_not_expired env (clock i) (ms ! i) = Some True)"
proof (intro conjI impI)
  assume a: "fst (add_transaction env clock self txn) = Some True \<and> truthy e"
  then have "ledger_not_expired env (clock i) (ms ! i) = Some True"
    using accepted_each_verified [OF conjunct1 [OF a] assms(1,2)]
    by (simp add: ledger_verify_mandate_True)
  from ledger_not_expired_True [OF this assms(3)] a
  show "\<exists>s t. e = JStr s \<and> strptime env s ''%Y-%m-%dT%H:%M:%SZ'' = Some t \<and> clock i < t"
    by simp
next
  assume "\<not> truthy e"
  then show "ledger_not_expired env (clock i) (ms ! i) = Some True"
    using assms(3) by (simp add: ledger_not_expired_def)
qed

theorem add_transaction_expiry_witness:
  "fst (add_transaction demo_env demo_clock demo_ledger
      (demo_txn [demo_intent, demo_cart ''urn:uuid:intent'' 100,
                 demo_payment ''urn:uuid:cart'' 100])) = Some True
   \<and> (\<exists>t. strptime demo_env ''2030-01-01T00:00:00Z'' ''%Y-%m-%dT%H:%M:%SZ'' = Some t
          \<and> demo_clock 0 < t)
   \<and> ledger_not_expired demo_env (demo_clock 0)
        ([demo_intent_at ''urn:uuid:blank'' JNull] ! 0) = Some True"
proof -
  let ?ms = "[demo_intent, demo_cart ''urn:uuid:intent'' 100, demo_payment ''urn:uuid:cart'' 100]"
  have e: "py_get (?ms ! 0) ''expirationDate'' JNull = Some (JStr ''2030-01-01T00:00:00Z'')"
    by (simp add: demo_defs)
  have n: "py_get ([demo_intent_at ''urn:uuid:blank'' JNull] ! 0) ''expirationDate'' JNull
      = Some JNull"
    by (simp add: demo_defs)
  have l: "0 < length ?ms" "0 < length [demo_intent_at ''urn:uuid:blank'' JNull]"
    by simp_all
  have t: "truthy (JStr ''2030-01-01T00:00:00Z'')" "\<not> truthy JNull"
    by simp_all
  note x = add_transaction_expiry [OF demo_mandates l(1) e, of demo_env demo_clock demo_ledger]
  note y = add_transaction_expiry [OF demo_mandates l(2) n, of demo_env demo_clock demo_ledger]
  from conjunct1 [OF x] demo_three_accepted t(1)
  obtain s t where st: "JStr ''2030-01-01T00:00:00Z'' = JStr s"
    "strptime demo_env s ''%Y-%m-%dT%H:%M:%SZ'' = Some t" "demo_clock 0 < t"
    by blast
  have s: "s = ''2030-01-01T00:00:00Z''"
    using st(1) by simp
  have 1: "\<exists>t. strptime demo_env ''2030-01-01T00:00:00Z'' ''%Y-%m-%dT%H:%M:%SZ'' = Some t
          \<and> demo_clock 0 < t"
    using st(2,3) unfolding s by (intro exI conjI)
  have 2: "ledger_not_expired demo_env (demo_clock 0)
        ([demo_intent_at ''urn:uuid:blank'' JNull] ! 0) = Some True"
    using conjunct2 [OF y] t(2) by (rule mp)
  show ?thesis
    by (intro conjI demo_three_accepted 1 2)
qed

text \<open>
  The claim as stated fails: the empty string is present and does not parse, and the
  batch holding it is accepted.
\<close>

theorem expiry_empty_string_counterexample:
  "fst (add_transaction demo_env demo_clock demo_ledger
      (demo_txn [demo_intent_at ''urn:uuid:blank'' (JStr [])])) = Some True
   \<and> py_get (demo_intent_at ''urn:uuid:blank'' (JStr [])) ''expirationDate'' JNull
       = Some (JStr [])
   \<and> ledger_parse_rfc3339 demo_env (JStr []) = None"
proof -
  have a: "py_get (demo_intent_at ''urn:uuid:blank'' (JStr [])) ''expirationDate'' JNull
       = Some (JStr [])"
    by (simp add: demo_defs)
  have b: "ledger_parse_rfc3339 demo_env (JStr []) = None"
    by (simp add: demo_defs ledger_parse_rfc3339_def)
  show ?thesis
    by (intro conjI demo_blank_accepted a b)
qed

lemma case_option_bool: "(case m of None \<Rightarrow> False | Some ok \<Rightarrow> ok) = (m = Some True)"
  by (cases m) auto

lemma intent_segment:
  "(py_item a ''credentialSubject'' \<bind> (\<lambda>s. py_item s ''details'' \<bind> (\<lambda>d.
      py_item d ''amount'' \<bind> (\<lambda>x. py_float env x \<bind> (\<lambda>ai. py_item s ''details'' \<bind> (\<lambda>d2.
      py_item d2 ''currency'' \<bind> (\<lambda>ci. py_item s ''merchant_id'' \<bind> (\<lambda>ri. K ai ci ri))))))))
   = intent_terms env a \<bind> (\<lambda>t. K (fst t) (fst (snd t)) (snd (snd t)))"
  by (auto simp: intent_terms_def terms_at_def split: option.splits Option.bind_splits)

lemma cart_segment:
  "(py_item b ''credentialSubject'' \<bind> (\<lambda>s. py_item s ''contents'' \<bind> (\<lambda>co.
      py_item co ''payment_request'' \<bind> (\<lambda>rq. py_item rq ''details'' \<bind> (\<lambda>d.
      py_item d ''total'' \<bind> (\<lambda>t. py_item t ''amount'' \<bind> (\<lambda>am.
      py_item am ''value'' \<bind> (\<lambda>x. py_float env x \<bind> (\<lambda>ac.
      py_item d ''total'' \<bind> (\<lambda>t2. py_item t2 ''amount'' \<bind> (\<lambda>am2.
      py_item am2 ''currency'' \<bind> (\<lambda>cc. py_item s ''merchant_id'' \<bind> (\<lambda>rc.
        K ac cc rc)))))))))))))
   = cart_terms env b \<bind> (\<lambda>t. K (fst t) (fst (snd t)) (snd (snd t)))"
  by (auto simp: cart_terms_def terms_at_def split: option.splits Option.bind_splits)

lemma payment_segment:
  "(py_item c ''credentialSubject'' \<bind> (\<lambda>s. py_item s ''payment_details'' \<bind> (\<lambda>d.
      py_item d ''amount'' \<bind> (\<lambda>x. py_float env x \<bind> (\<lambda>ap.
      py_item d ''currency'' \<bind> (\<lambda>cp. py_item s ''merchant_id'' \<bind> (\<lambda>rp. K ap cp rp)))))))
   = payment_terms env c \<bind> (\<lambda>t. K (fst t) (fst (snd t)) (snd (snd t)))"
  by (auto simp: payment_terms_def terms_at_def split: option.splits Option.bind_splits)

lemma add_transaction_terms_spec:
  "add_transaction_terms env a b c \<longleftrightarrow>
     (\<exists>ti tc tp. intent_terms env a = Some ti \<and> cart_terms env b = Some tc \<and>
        payment_terms env c = Some tp \<and> terms_agree ti tc \<and> terms_agree tc tp)"
proof -
  have "add_transaction_terms env a b c \<longleftrightarrow>
      (intent_terms env a \<bind> (\<lambda>ti. cart_terms env b \<bind> (\<lambda>tc. payment_terms env c \<bind> (\<lambda>tp.
         Some (float_eq (fst ti) (fst tc) \<and> float_eq (fst tc) (fst tp)
               \<and> py_eq (fst (snd ti)) (fst (snd tc)) \<and> py_eq (fst (snd tc)) (fst (snd tp))
               \<and> py_eq (snd (snd ti)) (snd (snd tc)) \<and> py_eq (snd (snd tc)) (snd (snd tp)))))))
       = Some True"
    unfolding add_transaction_terms_def case_option_bool
      intent_segment cart_segment payment_segment ..
  also have "\<dots> \<longleftrightarrow> (\<exists>ti tc tp. intent_terms env a = Some ti \<and> cart_terms env b = Some tc \<and>
        payment_terms env c = Some tp \<and> terms_agree ti tc \<and> terms_agree tc tp)"
    by (cases "intent_terms env a"; cases "cart_terms env b"; cases "payment_terms env c")
       auto
  finally show ?thesis .
qed

lemma py_eq_JStr_right: "py_eq v (JStr s) \<longleftrightarrow> v = JStr s"
  by (cases v) auto

lemma add_transaction_check_short:
  "length ms < 3 \<Longrightarrow> add_transaction_check env ms = Some True"
  by (cases "(env, ms)" rule: add_transaction_check.cases) auto

lemma add_transaction_check_long:
  "add_transaction_check env (a # b # c # rest) = Some True \<longleftrightarrow>
     (\<exists>tag. type_tag a = Some tag \<and>
        (tag = JStr ''IntentMandate'' \<longrightarrow> add_transaction_terms env a b c))"
  by (cases "type_tag a") (auto simp: py_eq_JStr_right)

lemma ledger_check_consistency_same:
  assumes "py_get txn ''mandates'' (JList []) = Some (JList ms)"
  shows "ledger_check_consistency env txn = add_transaction_check env ms"
  unfolding ledger_check_consistency_def assms terms_same
  by (cases "(env, ms)" rule: add_transaction_check.cases) auto

lemma three_or_more:
  assumes "3 \<le> length ms"
  obtains rest where "ms = ms ! 0 # ms ! 1 # ms ! 2 # rest"
proof -
  obtain a ms1 where 1: "ms = a # ms1" using assms by (cases ms) auto
  obtain b ms2 where 2: "ms1 = b # ms2" using assms 1 by (cases ms1) auto
  obtain c ms3 where 3: "ms2 = c # ms3" using assms 1 2 by (cases ms2) auto
  show ?thesis using that [of ms3] by (simp add: 1 2 3)
qed

lemma each_of_list_all:
  "list_all (\<lambda>m. ledger_verify_mandate demo_env demo_ledger 2029 m = Some True) ms \<Longrightarrow>
     \<forall>i < length ms. ledger_verify_mandate demo_env demo_ledger (demo_clock i) (ms ! i) = Some True"
  by (simp add: list_all_length demo_clock_def)

lemma demo_linked_intent_cart: "linked demo_intent (demo_cart ''urn:uuid:intent'' a)"
  by (simp add: linked_def demo_defs ledger_defs)

lemma demo_linked_cart_netting: "linked (demo_cart p a) demo_netting"
  by (simp add: linked_def demo_defs ledger_defs)

lemma demo_linked_cart_payment: "linked (demo_cart p a) (demo_payment ''urn:uuid:cart'' x)"
  by (simp add: linked_def demo_defs ledger_defs)

lemma demo_linked_netting_payment: "linked demo_netting (demo_payment ''urn:uuid:netting'' x)"
  by (simp add: linked_def demo_defs ledger_defs)

lemma demo_unlinked: "\<not> linked demo_intent (demo_cart ''urn:uuid:other'' a)"
  by (simp add: linked_def demo_defs ledger_defs)

lemma demo_intent_tag: "type_tag demo_intent = Some (JStr ''IntentMandate'')"
  by (simp add: demo_defs ledger_defs)

lemma demo_netting_tag: "type_tag demo_netting = Some (JStr ''NettingMandate'')"
  by (simp add: demo_defs ledger_defs)

lemma demo_intent_terms:
  "intent_terms demo_env demo_intent = Some (Fin 100, JStr ''EUR'', JStr ''merchant'')"
  by (simp add: intent_terms_def terms_at_def demo_defs)

lemma demo_cart_terms:
  "cart_terms demo_env (demo_cart p a) = Some (Fin a, JStr ''EUR'', JStr ''merchant'')"
  by (simp add: cart_terms_def terms_at_def demo_defs)

lemma demo_netting_terms:
  "payment_terms demo_env demo_netting = Some (Fin 100, JStr ''EUR'', JStr ''merchant'')"
  by (simp add: payment_terms_def terms_at_def demo_defs)

lemma demo_payment_terms:
  "payment_terms demo_env (demo_payment p a) = Some (Fin a, JStr ''EUR'', JStr ''merchant'')"
  by (simp add: payment_terms_def terms_at_def demo_defs)

lemma demo_agree:
  "terms_agree (Fin 100, JStr ''EUR'', JStr ''merchant'') (Fin 100, JStr ''EUR'', JStr ''merchant'')"
  by (simp add: float_eq_def)

text \<open>
  C9. On a record whose \<open>mandates\<close> is a list, \<open>ledger_check_consistency\<close> returns what the
  cross-record check of \<open>add_transaction\<close> returns on the same mandates (and raises where
  it raises), without any of the signature, trust, expiry, revocation or chain checks. So
  it is \<open>True\<close> on every batch \<open>add_transaction\<close> accepted, on every batch of fewer than
  three mandates, and on every batch whose first record carries a type tag other than
  \<open>IntentMandate\<close>.
\<close>

theorem ledger_check_consistency_recheck:
  assumes "py_get txn ''mandates'' (JList []) = Some (JList ms)"
  shows "ledger_check_consistency env txn = add_transaction_check env ms
       \<and> (fst (add_transaction env clock self txn) = Some True \<longrightarrow>
            ledger_check_consistency env txn = Some True)
       \<and> (length ms < 3 \<longrightarrow> ledger_check_consistency env txn = Some True)
       \<and> (\<forall>tag. ms \<noteq> [] \<and> type_tag (ms ! 0) = Some tag \<and> tag \<noteq> JStr ''IntentMandate'' \<longrightarrow>
            ledger_check_consistency env txn = Some True)"
proof (intro conjI impI allI)
  show same: "ledger_check_consistency env txn = add_transaction_check env ms"
    by (rule ledger_check_consistency_same [OF assms])
  show "ledger_check_consistency env txn = Some True"
    if "fst (add_transaction env clock self txn) = Some True"
    using that assms unfolding add_transaction_accept same by auto
  show "ledger_check_consistency env txn = Some True" if "length ms < 3"
    unfolding same using that by (rule add_transaction_check_short)
  show "ledger_check_consistency env txn = Some True"
    if h: "ms \<noteq> [] \<and> type_tag (ms ! 0) = Some tag \<and> tag \<noteq> JStr ''IntentMandate''" for tag
  proof (cases "length ms < 3")
    case True
    then show ?thesis unfolding same by (rule add_transaction_check_short)
  next
    case False
    then obtain rest where ms: "ms = ms ! 0 # ms ! 1 # ms ! 2 # rest"
      using three_or_more [of ms] by auto
    show ?thesis
      unfolding same by (subst ms) (use h in \<open>simp add: py_eq_JStr_right\<close>)
  qed
qed

theorem ledger_check_consistency_recheck_witness:
  "ledger_check_consistency demo_env
     (demo_txn [demo_intent, demo_cart ''urn:uuid:intent'' 100, demo_payment ''urn:uuid:cart'' 100])
     = Some True
   \<and> ledger_check_consistency demo_env (demo_txn [demo_intent]) = Some True
   \<and> ledger_check_consistency demo_env (demo_txn [demo_netting, demo_netting, demo_netting])
     = Some True"
proof -
  let ?n = "[demo_netting, demo_netting, demo_netting]"
  have 1: "ledger_check_consistency demo_env
     (demo_txn [demo_intent, demo_cart ''urn:uuid:intent'' 100, demo_payment ''urn:uuid:cart'' 100])
     = Some True"
    by (rule ledger_check_consistency_recheck [OF demo_mandates, THEN conjunct2, THEN conjunct1,
          THEN mp, OF demo_three_accepted])
  have "length [demo_intent] < 3" by simp
  then have 2: "ledger_check_consistency demo_env (demo_txn [demo_intent]) = Some True"
    by (rule ledger_check_consistency_recheck [OF demo_mandates, THEN conjunct2, THEN conjunct2,
          THEN conjunct1, THEN mp])
  have "?n \<noteq> [] \<and> type_tag (?n ! 0) = Some (JStr ''NettingMandate'')
      \<and> JStr ''NettingMandate'' \<noteq> JStr ''IntentMandate''"
    by (simp add: demo_netting_tag)
  then have 3: "ledger_check_consistency demo_env (demo_txn ?n) = Some True"
    by (rule ledger_check_consistency_recheck [OF demo_mandates, THEN conjunct2, THEN conjunct2,
          THEN conjunct2, THEN spec, THEN mp])
  show ?thesis
    by (intro conjI 1 2 3)
qed

lemma demo_netting_at_ok:
  "ledger_verify_mandate demo_env demo_ledger 2029 (demo_netting_at a) = Some True"
  by (simp add: demo_defs ledger_defs demo_netting_at_def)

lemma demo_linked_cart_netting_at: "linked (demo_cart p a) (demo_netting_at x)"
  by (simp add: linked_def demo_defs ledger_defs demo_netting_at_def)

lemma demo_linked_netting_at_payment:
  "linked (demo_netting_at x) (demo_payment ''urn:uuid:netting'' y)"
  by (simp add: linked_def demo_defs ledger_defs demo_netting_at_def)

lemma demo_netting_at_terms:
  "payment_terms demo_env (demo_netting_at a) = Some (Fin a, JStr ''EUR'', JStr ''merchant'')"
  by (simp add: payment_terms_def terms_at_def demo_defs demo_netting_at_def)

lemma add_transaction_only_if_linked:
  assumes "py_get txn ''mandates'' (JList []) = Some (JList ms)"
  shows "(fst (add_transaction env clock self txn) = Some True \<longrightarrow>
            (\<forall>i. Suc i < length ms \<longrightarrow> linked (ms ! i) (ms ! Suc i)))
       \<and> ((\<exists>i. Suc i < length ms \<and> \<not> linked (ms ! i) (ms ! Suc i)) \<longrightarrow>
            fst (add_transaction env clock self txn) \<noteq> Some True
            \<and> snd (add_transaction env clock self txn) = self)"
proof -
  have only_if: "\<forall>i. Suc i < length ms \<longrightarrow> linked (ms ! i) (ms ! Suc i)"
    if "fst (add_transaction env clock self txn) = Some True"
    using that assms unfolding add_transaction_accept ledger_verify_chain_True by auto
  have "fst (add_transaction env clock self txn) \<noteq> Some True
      \<and> snd (add_transaction env clock self txn) = self"
    if "\<exists>i. Suc i < length ms \<and> \<not> linked (ms ! i) (ms ! Suc i)"
  proof -
    have "fst (add_transaction env clock self txn) \<noteq> Some True"
      using only_if that by blast
    then show ?thesis by (simp add: add_transaction_state)
  qed
  then show ?thesis using only_if by blast
qed

lemma add_transaction_terms_reject:
  assumes "py_get txn ''mandates'' (JList []) = Some (JList ms)" and "ms \<noteq> []"
      and "verify_mandates env self clock 0 ms = Some True"
      and "ledger_verify_chain ms = Some True"
      and "add_transaction_check env ms = Some False"
  shows "add_transaction env clock self txn = (Some False, self)"
  using assms unfolding add_transaction_def by simp

text \<open>
  C4, what the code does where it departs from the chain claim. Linkage itself is
  enforced (\<open>add_transaction_only_if_linked\<close>): a batch is accepted only if every mandate
  names the id of the one before it, and one pair that does not keeps the batch out. But
  the terms compared are those of the first three mandates. On a batch intent, cart,
  netting, payment whose mandates all pass \<open>ledger_verify_mandate\<close>, linked throughout,
  with amount, currency and receiver agreeing across the intent, cart and payment
  records, \<open>add_transaction\<close> returns \<open>False\<close> and stores nothing as soon as the netting
  record's terms differ from the cart's. The instance has a netting record of 999 between
  an intent, a cart and a payment of 100.
\<close>

theorem add_transaction_third_record_mismatch:
  assumes "py_get txn ''mandates'' (JList []) = Some (JList [intent_vc, cart_vc, netting_vc, payment_vc])"
      and "\<forall>i < 4. ledger_verify_mandate env self (clock i)
             ([intent_vc, cart_vc, netting_vc, payment_vc] ! i) = Some True"
      and "linked intent_vc cart_vc" "linked cart_vc netting_vc" "linked netting_vc payment_vc"
      and "type_tag intent_vc = Some (JStr ''IntentMandate'')"
      and "intent_terms env intent_vc = Some ti" "cart_terms env cart_vc = Some tc"
      and "payment_terms env payment_vc = Some tp"
      and "terms_agree ti tc" "terms_agree tc tp"
      and "payment_terms env netting_vc = Some tn" "\<not> terms_agree tc tn"
  shows "add_transaction env clock self txn = (Some False, self)"
proof -
  let ?ms = "[intent_vc, cart_vc, netting_vc, payment_vc]"
  have v: "verify_mandates env self clock 0 ?ms = Some True"
    unfolding verify_mandates_True using assms(2) by simp
  have c: "ledger_verify_chain ?ms = Some True"
    unfolding ledger_verify_chain_step using assms(3-5) by simp
  have t: "\<not> add_transaction_terms env intent_vc cart_vc netting_vc"
    unfolding add_transaction_terms_spec using assms(8,12,13) by auto
  have k: "add_transaction_check env ?ms = Some False"
    using assms(6) t by simp
  show ?thesis
    by (rule add_transaction_terms_reject [OF assms(1) _ v c k]) simp
qed

theorem add_transaction_third_record_mismatch_witness:
  "add_transaction demo_env demo_clock demo_ledger
     (demo_txn [demo_intent, demo_cart ''urn:uuid:intent'' 100, demo_netting_at 999,
                demo_payment ''urn:uuid:netting'' 100])
     = (Some False, demo_ledger)
   \<and> intent_terms demo_env demo_intent = Some (Fin 100, JStr ''EUR'', JStr ''merchant'')
   \<and> cart_terms demo_env (demo_cart ''urn:uuid:intent'' 100)
       = Some (Fin 100, JStr ''EUR'', JStr ''merchant'')
   \<and> payment_terms demo_env (demo_payment ''urn:uuid:netting'' 100)
       = Some (Fin 100, JStr ''EUR'', JStr ''merchant'')
   \<and> linked demo_intent (demo_cart ''urn:uuid:intent'' 100)
   \<and> linked (demo_cart ''urn:uuid:intent'' 100) (demo_netting_at 999)
   \<and> linked (demo_netting_at 999) (demo_payment ''urn:uuid:netting'' 100)"
proof -
  let ?ms = "[demo_intent, demo_cart ''urn:uuid:intent'' 100, demo_netting_at 999,
              demo_payment ''urn:uuid:netting'' 100]"
  have "\<forall>i < length ?ms. ledger_verify_mandate demo_env demo_ledger (demo_clock i) (?ms ! i) = Some True"
    by (rule each_of_list_all)
      (simp add: demo_intent_ok demo_cart_ok demo_netting_at_ok demo_payment_ok)
  then have each: "\<forall>i < 4. ledger_verify_mandate demo_env demo_ledger (demo_clock i) (?ms ! i) = Some True"
    by simp
  have ne: "\<not> terms_agree (Fin 100, JStr ''EUR'', JStr ''merchant'')
      (Fin 999, JStr ''EUR'', JStr ''merchant'')"
    by (simp add: float_eq_def)
  show ?thesis
    by (intro conjI demo_intent_terms demo_cart_terms demo_payment_terms
        demo_linked_intent_cart demo_linked_cart_netting_at demo_linked_netting_at_payment
        add_transaction_third_record_mismatch [OF demo_mandates each
          demo_linked_intent_cart demo_linked_cart_netting_at demo_linked_netting_at_payment
          demo_intent_tag demo_intent_terms demo_cart_terms demo_payment_terms
          demo_agree demo_agree demo_netting_at_terms ne])
qed



text \<open>
  C1, what the code does on a batch of four. The third record read is the third mandate
  of the batch, which in the order intent, cart, netting, payment is the netting record,
  through the payment paths. When intent, cart and netting agree the batch is accepted
  and appended whatever the payment record holds. The instance has a payment of 999
  against an intent, a cart and a netting record of 100.
\<close>

theorem add_transaction_fourth_record_unchecked:
  assumes "py_get txn ''mandates'' (JList []) = Some (JList [intent_vc, cart_vc, netting_vc, payment_vc])"
      and "\<forall>i < 4. ledger_verify_mandate env self (clock i)
             ([intent_vc, cart_vc, netting_vc, payment_vc] ! i) = Some True"
      and "linked intent_vc cart_vc" "linked cart_vc netting_vc" "linked netting_vc payment_vc"
      and "type_tag intent_vc = Some (JStr ''IntentMandate'')"
      and "intent_terms env intent_vc = Some ti" "cart_terms env cart_vc = Some tc"
      and "payment_terms env netting_vc = Some tn"
      and "terms_agree ti tc" "terms_agree tc tn"
  shows "add_transaction env clock self txn
           = (Some True, self\<lparr>transactions := transactions self @ [txn]\<rparr>)"
proof -
  let ?ms = "[intent_vc, cart_vc, netting_vc, payment_vc]"
  have v: "verify_mandates env self clock 0 ?ms = Some True"
    unfolding verify_mandates_True using assms(2) by simp
  have c: "ledger_verify_chain ?ms = Some True"
    unfolding ledger_verify_chain_step using assms(3-5) by simp
  have t: "add_transaction_terms env intent_vc cart_vc netting_vc"
    unfolding add_transaction_terms_spec using assms(7-11) by blast
  have k: "add_transaction_check env ?ms = Some True"
    using assms(6) t by (simp only: add_transaction_check_long) simp
  have "fst (add_transaction env clock self txn) = Some True"
    unfolding add_transaction_accept using assms(1) v c k by simp
  then show ?thesis
    using add_transaction_state [of env clock self txn] by (simp add: prod_eq_iff)
qed

theorem add_transaction_fourth_record_unchecked_witness:
  "add_transaction demo_env demo_clock demo_ledger
     (demo_txn [demo_intent, demo_cart ''urn:uuid:intent'' 100, demo_netting,
                demo_payment ''urn:uuid:netting'' 999])
     = (Some True, demo_ledger\<lparr>transactions := transactions demo_ledger @
          [demo_txn [demo_intent, demo_cart ''urn:uuid:intent'' 100, demo_netting,
                     demo_payment ''urn:uuid:netting'' 999]]\<rparr>)
   \<and> intent_terms demo_env demo_intent = Some (Fin 100, JStr ''EUR'', JStr ''merchant'')
   \<and> payment_terms demo_env (demo_payment ''urn:uuid:netting'' 999)
       = Some (Fin 999, JStr ''EUR'', JStr ''merchant'')
   \<and> \<not> float_eq (Fin 100) (Fin 999)"
proof -
  let ?ms = "[demo_intent, demo_cart ''urn:uuid:intent'' 100, demo_netting,
              demo_payment ''urn:uuid:netting'' 999]"
  have "\<forall>i < length ?ms. ledger_verify_mandate demo_env demo_ledger (demo_clock i) (?ms ! i) = Some True"
    by (rule each_of_list_all)
      (simp add: demo_intent_ok demo_cart_ok demo_netting_ok demo_payment_ok)
  then have each: "\<forall>i < 4. ledger_verify_mandate demo_env demo_ledger (demo_clock i) (?ms ! i) = Some True"
    by simp
  have ne: "\<not> float_eq (Fin 100) (Fin 999)"
    by (simp add: float_eq_def)
  show ?thesis
    by (intro conjI ne demo_intent_terms demo_payment_terms
        add_transaction_fourth_record_unchecked [OF demo_mandates each
          demo_linked_intent_cart demo_linked_cart_netting demo_linked_netting_payment
          demo_intent_tag demo_intent_terms demo_cart_terms demo_netting_terms
          demo_agree demo_agree])
qed


lemma dict_pop_dict_set: "dict_pop (dict_set d k v) k = dict_pop d k"
  by (induction d) (auto simp: dict_pop_def)








lemma canonicalize_ignores_proof:
  "json_canonicalize_vc_for_signing env (dict_set vc ''proof'' p)
     = json_canonicalize_vc_for_signing env vc"
  by (simp add: json_canonicalize_vc_for_signing_def dict_pop_dict_set)




end
